theory Spec2Isabelle
  imports Complex_Main
begin

section \<open>Numbers, vectors and the three.js interface\<close>

text \<open>
  The program is \<^verbatim>\<open>src/main.js\<close>, a WebXR coin game. JavaScript numbers are modelled
  as \<^typ>\<open>real\<close> (idealised doubles: no rounding, no NaN); counters that only ever
  hold small non-negative integers (the score, sizes) are \<^typ>\<open>nat\<close>.
  \<open>Math.random()\<close>, \<open>performance.now()\<close>, the XR camera pose and the hit-test
  results are inputs of the functions that read them.
\<close>

datatype vec3 = Vec3 (vx: real) (vy: real) (vz: real)

datatype quat = Quat (qx: real) (qy: real) (qz: real) (qw: real)

datatype color = Color (cr: real) (cg: real) (cb: real)

text \<open>
  The three.js routines whose arithmetic is not part of this repository are taken as
  parameters: rotating a vector by a quaternion, the Euler rotation that
  \<open>Object3D.lookAt\<close> leaves on an object at a position facing a target, and the
  conversions between a hex colour code and the r, g, b channels of \<open>THREE.Color\<close>.
\<close>

record three =
  applyQuaternion :: "vec3 \<Rightarrow> quat \<Rightarrow> vec3"
  lookAtEuler :: "vec3 \<Rightarrow> vec3 \<Rightarrow> vec3"
  colorOfHex :: "nat \<Rightarrow> color"
  getHex :: "color \<Rightarrow> nat"

text \<open>\<open>Vector3\<close> arithmetic used by the program: \<open>add\<close>, \<open>addScaledVector\<close>,
  \<open>length\<close>, \<open>normalize\<close> (a zero vector is divided by 1), \<open>distanceTo\<close>, and
  \<open>MathUtils.lerp\<close>.\<close>

definition add_v :: "vec3 \<Rightarrow> vec3 \<Rightarrow> vec3" where
  "add_v a b = Vec3 (vx a + vx b) (vy a + vy b) (vz a + vz b)"

definition addScaledVector :: "vec3 \<Rightarrow> vec3 \<Rightarrow> real \<Rightarrow> vec3" where
  "addScaledVector a v k = Vec3 (vx a + vx v * k) (vy a + vy v * k) (vz a + vz v * k)"

definition length_v :: "vec3 \<Rightarrow> real" where
  "length_v v = sqrt (vx v * vx v + vy v * vy v + vz v * vz v)"

definition normalize_v :: "vec3 \<Rightarrow> vec3" where
  "normalize_v v =
     (let l = (if length_v v = 0 then 1 else length_v v)
      in Vec3 (vx v / l) (vy v / l) (vz v / l))"

definition distanceTo :: "vec3 \<Rightarrow> vec3 \<Rightarrow> real" where
  "distanceTo a b =
     (let dx = vx a - vx b; dy = vy a - vy b; dz = vz a - vz b
      in sqrt (dx * dx + dy * dy + dz * dz))"

definition lerp :: "real \<Rightarrow> real \<Rightarrow> real \<Rightarrow> real" where
  "lerp a b t = (1 - t) * a + t * b"

text \<open>\<open>THREE.MathUtils.lerpColors\<close>, defined at the end of main.js.\<close>

definition lerpColors :: "color \<Rightarrow> color \<Rightarrow> real \<Rightarrow> color" where
  "lerpColors c1 c2 t =
     Color (cr c1 + (cr c2 - cr c1) * t)
           (cg c1 + (cg c2 - cg c1) * t)
           (cb c1 + (cb c2 - cb c1) * t)"

section \<open>Constants\<close>

definition MAX_COINS :: nat where "MAX_COINS = 30"
definition SPAWN_INTERVAL_MS :: real where "SPAWN_INTERVAL_MS = 1400"
definition COLLECT_RADIUS :: real where "COLLECT_RADIUS = 0.5"
definition SPAWN_RADIUS_MIN :: real where "SPAWN_RADIUS_MIN = 0.6"
definition SPAWN_RADIUS_MAX :: real where "SPAWN_RADIUS_MAX = 2.6"
definition COIN_LIFETIME :: real where "COIN_LIFETIME = 20000"

section \<open>Objects and program state\<close>

text \<open>
  A coin is a \<open>THREE.Mesh\<close>. Meshes and materials are JavaScript objects that several
  places hold references to (the \<open>coins\<close> set, the scene, the closure of a running
  tween, the variable \<open>_coinMat\<close>), so they live in stores indexed by address; a
  fresh address is the store's allocation counter. The torus geometry is shared too,
  but it is never written or read after creation and is left out.
\<close>

record material =
  color :: color
  emissive :: color
  metalness :: real
  roughness :: real
  opacity :: real
  transparent :: bool

record mesh =
  position :: vec3
  rotation :: vec3
  scale :: vec3
  material :: nat
  createdAt :: real
  spin :: real
  bobAmp :: real
  phase :: real

text \<open>The variables the closure \<open>tween\<close> inside \<open>collect\<close> captures; \<open>dur\<close> is
  the constant 180.\<close>

record tween_env =
  tw_obj :: nat
  tw_start :: real
  tw_startScale :: real
  tw_startEm :: nat

text \<open>The texts written to the status line:
  \<^item> \<open>StatusHtml\<close>: whatever the page shows before the script writes to it;
  \<^item> \<open>StatusFindSurface\<close>: find a surface, then tap to place the spawn point;
  \<^item> \<open>StatusTapToPlace\<close>: tap to place spawn point;
  \<^item> \<open>StatusMovePhone\<close>: move your phone to help it find a surface;
  \<^item> \<open>StatusPlaced\<close>: walk into coins to collect them, they will keep spawning;
  \<^item> \<open>StatusFallback\<close>: fallback placement used, walk into coins to collect them.\<close>

datatype status_text =
  StatusHtml | StatusFindSurface | StatusTapToPlace | StatusMovePhone
  | StatusPlaced | StatusFallback

record state =
  meshes :: "nat \<Rightarrow> mesh"
  nextMesh :: nat
  materials :: "nat \<Rightarrow> material"
  nextMat :: nat
  coinMat :: "nat option"
  coins :: "nat list"
  scene :: "nat list"
  tweens :: "tween_env list"
  score :: nat
  placed :: bool
  paused :: bool
  lastSpawnAt :: real
  spawnRoot_position :: vec3
  spawnRoot_quaternion :: quat
  reticle_visible :: bool
  reticle_position :: vec3
  reticle_quaternion :: quat
  reticle_scale :: vec3
  hitTestSource :: bool
  clock :: bool
  status :: status_text
  btnBurst_disabled :: bool
  btnPause_text :: string
  hud_score :: nat
  hud_alive :: nat

text \<open>
  \<open>coins\<close> is a JavaScript \<open>Set\<close>: a list in insertion order without repetition.
  \<open>scene\<close> lists the coin meshes among the scene's children, \<open>tweens\<close> the
  \<open>tween\<close> callbacks waiting in \<open>requestAnimationFrame\<close>.
\<close>

definition set_add :: "nat \<Rightarrow> nat list \<Rightarrow> nat list" where
  "set_add c xs = (if c \<in> set xs then xs else xs @ [c])"

definition scene_add :: "nat \<Rightarrow> nat list \<Rightarrow> nat list" where
  "scene_add c xs = removeAll c xs @ [c]"

definition updateHUD :: "state \<Rightarrow> state" where
  "updateHUD s = s\<lparr>hud_score := score s, hud_alive := length (coins s)\<rparr>"

section \<open>Spawning\<close>

text \<open>What one coin's construction reads from outside: \<open>performance.now()\<close>, the six
  \<open>Math.random()\<close> draws in the order they are made, and the world position of the
  XR camera.\<close>

record spawn_in =
  sp_now :: real
  r_spin :: real
  r_sign :: real
  r_bob :: real
  r_phase :: real
  r_radius :: real
  r_theta :: real
  cam_world :: vec3

definition getSharedCoinMat :: "three \<Rightarrow> state \<Rightarrow> nat \<times> state" where
  "getSharedCoinMat L s =
     (case coinMat s of
        Some m \<Rightarrow> (m, s)
      | None \<Rightarrow>
          (let m = nextMat s
           in (m, s\<lparr>materials := (materials s)(m :=
                       \<lparr>color = colorOfHex L 16766282, emissive = colorOfHex L 5583616,
                        metalness = 0.8, roughness = 0.25, opacity = 1,
                        transparent = False\<rparr>),
                    nextMat := Suc m, coinMat := Some m\<rparr>)))"

definition makeCoin :: "three \<Rightarrow> spawn_in \<Rightarrow> state \<Rightarrow> nat \<times> state" where
  "makeCoin L i s =
     (let (mat, s1) = getSharedCoinMat L s;
          c = nextMesh s1;
          m = \<lparr>position = Vec3 0 0 0, rotation = Vec3 0 0 0, scale = Vec3 1 1 1,
               material = mat, createdAt = sp_now i,
               spin = (1.2 + r_spin i * 1.2) * (if r_sign i < 0.5 then - 1 else 1),
               bobAmp = 0.06 + r_bob i * 0.06,
               phase = r_phase i * pi * 2\<rparr>
      in (c, s1\<lparr>meshes := (meshes s1)(c := m), nextMesh := Suc c\<rparr>))"

definition positionCoinAroundRoot :: "three \<Rightarrow> spawn_in \<Rightarrow> nat \<Rightarrow> state \<Rightarrow> state" where
  "positionCoinAroundRoot L i c s =
     (let r = lerp SPAWN_RADIUS_MIN SPAWN_RADIUS_MAX (r_radius i);
          theta = r_theta i * pi * 2;
          offset = applyQuaternion L (Vec3 (cos theta * r) 0 (sin theta * r))
                     (spawnRoot_quaternion s);
          b = add_v (spawnRoot_position s) offset;
          base = Vec3 (vx b) (vy (spawnRoot_position s) + 0.02) (vz b)
      in s\<lparr>meshes := (meshes s)(c := (meshes s c)
             \<lparr>position := base, rotation := lookAtEuler L base (cam_world i)\<rparr>)\<rparr>)"

text \<open>The four statements shared by \<open>maybeSpawnCoins\<close> and the body of the loop of
  \<open>spawnBurst\<close>: make a coin, position it, add it to the scene and to \<open>coins\<close>.\<close>

definition spawnCoin :: "three \<Rightarrow> spawn_in \<Rightarrow> state \<Rightarrow> state" where
  "spawnCoin L i s =
     (let (c, s1) = makeCoin L i s;
          s2 = positionCoinAroundRoot L i c s1
      in s2\<lparr>scene := scene_add c (scene s2), coins := set_add c (coins s2)\<rparr>)"

text \<open>\<open>rnd\<close> is the \<open>Math.random()\<close> draw of the jitter; it is made only when the
  pool is below the cap.\<close>

definition maybeSpawnCoins :: "three \<Rightarrow> real \<Rightarrow> real \<Rightarrow> spawn_in \<Rightarrow> state \<Rightarrow> state" where
  "maybeSpawnCoins L nowMs rnd i s =
     (if length (coins s) \<ge> MAX_COINS then s
      else if nowMs - lastSpawnAt s < SPAWN_INTERVAL_MS * (0.7 + rnd * 0.8) then s
      else updateHUD (spawnCoin L i (s\<lparr>lastSpawnAt := nowMs\<rparr>)))"

text \<open>The loop \<open>for (let i = 0; i < n; i++)\<close> of \<open>spawnBurst\<close>; iteration \<open>i\<close>
  reads the inputs \<open>ins i\<close>.\<close>

function burst_loop :: "three \<Rightarrow> (nat \<Rightarrow> spawn_in) \<Rightarrow> nat \<Rightarrow> int \<Rightarrow> state \<Rightarrow> state" where
  "burst_loop L ins i n s =
     (if int i < n then burst_loop L ins (Suc i) n (spawnCoin L (ins i) s) else s)"
  by pat_completeness auto
termination
  by (relation "measure (\<lambda>(L, ins, i, n, s). nat (n - int i))") auto

declare burst_loop.simps [simp del]

definition spawnBurst :: "three \<Rightarrow> (nat \<Rightarrow> spawn_in) \<Rightarrow> state \<Rightarrow> state" where
  "spawnBurst L ins s =
     (if \<not> placed s then s
      else (let n = min 10 (int MAX_COINS - int (length (coins s)))
            in updateHUD (burst_loop L ins 0 n s)))"

section \<open>Motion and expiry\<close>

text \<open>The first loop of \<open>updateCoins\<close>, over the members of \<open>coins\<close> in order:
  it moves each coin and appends the expired ones to \<open>toRemove\<close>. It writes to the
  visited mesh only.\<close>

fun updateCoins_scan :: "real \<Rightarrow> real \<Rightarrow> nat list \<Rightarrow> state \<times> nat list \<Rightarrow> state \<times> nat list" where
  "updateCoins_scan dt nowMs [] (s, toRemove) = (s, toRemove)"
| "updateCoins_scan dt nowMs (c # cs) (s, toRemove) =
     (let t = nowMs * 0.001;
          m = meshes s c;
          m1 = m\<lparr>rotation := Vec3 (vx (rotation m)) (vy (rotation m) + spin m * dt)
                                 (vz (rotation m))\<rparr>;
          m2 = m1\<lparr>position := Vec3 (vx (position m1))
                     (vy (spawnRoot_position s) + 0.02 + sin (t + phase m1) * bobAmp m1)
                     (vz (position m1))\<rparr>;
          s1 = s\<lparr>meshes := (meshes s)(c := m2)\<rparr>
      in updateCoins_scan dt nowMs cs
           (s1, if nowMs - createdAt m2 > COIN_LIFETIME then toRemove @ [c] else toRemove))"

text \<open>The second loop: every member of \<open>toRemove\<close> leaves the scene and \<open>coins\<close>.\<close>

fun updateCoins_evict :: "nat list \<Rightarrow> state \<Rightarrow> state" where
  "updateCoins_evict [] s = s"
| "updateCoins_evict (c # cs) s =
     updateCoins_evict cs (s\<lparr>scene := removeAll c (scene s), coins := removeAll c (coins s)\<rparr>)"

definition updateCoins :: "real \<Rightarrow> real \<Rightarrow> state \<Rightarrow> state" where
  "updateCoins dt nowMs s =
     (let (s1, toRemove) = updateCoins_scan dt nowMs (coins s) (s, []);
          s2 = updateCoins_evict toRemove s1
      in if toRemove \<noteq> [] then updateHUD s2 else s2)"

section \<open>Collection\<close>

text \<open>One call of the closure \<open>tween\<close> at \<open>performance.now() = nowT\<close>. It writes
  the scale of the collected mesh and the emissive colour, opacity and transparency of
  the material that mesh refers to; then it either asks for another animation frame
  or takes the mesh out of the scene.\<close>

definition tween :: "three \<Rightarrow> tween_env \<Rightarrow> real \<Rightarrow> state \<Rightarrow> state" where
  "tween L e nowT s =
     (let obj = tw_obj e;
          t = min 1 ((nowT - tw_start e) / 180);
          sc = tw_startScale e * (1 + 1.2 * t);
          s1 = s\<lparr>meshes := (meshes s)(obj := (meshes s obj)\<lparr>scale := Vec3 sc sc sc\<rparr>)\<rparr>;
          mat = material (meshes s1 obj);
          s2 = s1\<lparr>materials := (materials s1)(mat := (materials s1 mat)
                 \<lparr>emissive := colorOfHex L (getHex L
                      (lerpColors (colorOfHex L (tw_startEm e)) (colorOfHex L 16777215) t)),
                  opacity := 1 - t,
                  transparent := True\<rparr>)\<rparr>
      in if t < 1 then s2\<lparr>tweens := tweens s2 @ [e]\<rparr>
         else s2\<lparr>scene := removeAll obj (scene s2)\<rparr>)"

text \<open>\<open>collect\<close> up to and including its call \<open>tween()\<close>: the membership guard has
  passed, the object leaves \<open>coins\<close>, the closure captures its variables and runs
  once. \<open>start\<close> and \<open>nowT\<close> are the two readings of \<open>performance.now()\<close>.\<close>

definition collect_effect :: "three \<Rightarrow> nat \<Rightarrow> real \<times> real \<Rightarrow> state \<Rightarrow> state" where
  "collect_effect L obj clk s =
     (let s1 = s\<lparr>coins := removeAll obj (coins s)\<rparr>;
          e = \<lparr>tw_obj = obj, tw_start = fst clk,
               tw_startScale = vx (scale (meshes s1 obj)),
               tw_startEm = getHex L (emissive (materials s1 (material (meshes s1 obj))))\<rparr>
      in tween L e (snd clk) s1)"

definition collect :: "three \<Rightarrow> nat \<Rightarrow> real \<times> real \<Rightarrow> state \<Rightarrow> state" where
  "collect L obj clk s =
     (if obj \<notin> set (coins s) then s
      else (let s1 = collect_effect L obj clk s
            in updateHUD (s1\<lparr>score := score s1 + 1\<rparr>)))"

text \<open>\<open>head\<close> is the position of the XR camera; \<open>clk c\<close> are the clock readings made
  while \<open>c\<close> is collected.\<close>

definition near :: "state \<Rightarrow> vec3 \<Rightarrow> nat \<Rightarrow> bool" where
  "near s head c \<longleftrightarrow> distanceTo (position (meshes s c)) head < COLLECT_RADIUS"

definition checkProximityCollect :: "three \<Rightarrow> vec3 \<Rightarrow> (nat \<Rightarrow> real \<times> real) \<Rightarrow> state \<Rightarrow> state" where
  "checkProximityCollect L head clk s =
     (let toRemove = filter (near s head) (coins s)
      in fold (\<lambda>c. collect L c (clk c)) toRemove s)"

text \<open>An animation frame of the window runs the waiting \<open>tween\<close> callbacks in order,
  the \<open>k\<close>-th one reading the clock as \<open>nows k\<close>; the callbacks they ask for wait for
  the next frame.\<close>

definition runTweens :: "three \<Rightarrow> (nat \<Rightarrow> real) \<Rightarrow> state \<Rightarrow> state" where
  "runTweens L nows s =
     fold (\<lambda>(k, e). tween L e (nows k)) (enumerate 0 (tweens s)) (s\<lparr>tweens := []\<rparr>)"

section \<open>Placement, input and reset\<close>

text \<open>A pointer event reads the XR camera (world position and orientation), the
  object the raycaster reports first among the coins, if any, and the clock.\<close>

record pointer_in =
  cam_origin :: vec3
  cam_quaternion :: quat
  p_pick :: "nat option"
  p_clk :: "real \<times> real"

definition onPointerDown :: "three \<Rightarrow> pointer_in \<Rightarrow> state \<Rightarrow> state" where
  "onPointerDown L i s =
     (if \<not> placed s then
        (if reticle_visible s then
           s\<lparr>spawnRoot_position := reticle_position s,
             spawnRoot_quaternion := reticle_quaternion s,
             placed := True, btnBurst_disabled := False, status := StatusPlaced\<rparr>
         else
           (let origin = cam_origin i;
                fwd = normalize_v (applyQuaternion L (Vec3 0 0 (- 1)) (cam_quaternion i));
                p = addScaledVector origin fwd 1.5
            in s\<lparr>spawnRoot_position := Vec3 (vx p) (vy p - 0.8) (vz p),
                 placed := True, btnBurst_disabled := False, status := StatusFallback\<rparr>))
      else (case p_pick i of
              Some obj \<Rightarrow> collect L obj (p_clk i) s
            | None \<Rightarrow> s))"

text \<open>A hit-test pose, decomposed into position, orientation and scale. \<open>frame\<close> is
  \<open>None\<close> when the callback gets no XR frame, and otherwise the hit-test results,
  each with the pose \<open>getPose\<close> returns for it.\<close>

record pose =
  pose_position :: vec3
  pose_quaternion :: quat
  pose_scale :: vec3

definition updateReticle :: "pose option list option \<Rightarrow> state \<Rightarrow> state" where
  "updateReticle frame s =
     (case (if hitTestSource s then frame else None) of
        None \<Rightarrow> s\<lparr>reticle_visible := False\<rparr>
      | Some hits \<Rightarrow>
          (let s1 = (case hits of
                       Some p # _ \<Rightarrow>
                         s\<lparr>reticle_visible := True, reticle_position := pose_position p,
                           reticle_quaternion := pose_quaternion p,
                           reticle_scale := pose_scale p\<rparr>
                     | _ \<Rightarrow> s\<lparr>reticle_visible := False\<rparr>)
           in if \<not> placed s1
              then s1\<lparr>status := (if reticle_visible s1 then StatusTapToPlace
                                  else StatusMovePhone)\<rparr>
              else s1))"

record frame_in =
  f_time :: real
  f_frame :: "pose option list option"
  f_delta :: real
  f_jitter :: real
  f_spawn :: spawn_in
  f_head :: vec3
  f_clk :: "nat \<Rightarrow> real \<times> real"

definition onXRFrame :: "three \<Rightarrow> frame_in \<Rightarrow> state \<Rightarrow> state" where
  "onXRFrame L i s =
     (let dt = (if clock s then f_delta i else 0.016);
          s1 = updateReticle (f_frame i) s
      in if \<not> paused s1 \<and> placed s1 then
           checkProximityCollect L (f_head i) (f_clk i)
             (updateCoins dt (f_time i)
               (maybeSpawnCoins L (f_time i) (f_jitter i) (f_spawn i) s1))
         else s1)"

definition resetGame :: "state \<Rightarrow> state" where
  "resetGame s =
     updateHUD (s\<lparr>scene := fold removeAll (coins s) (scene s), coins := [], score := 0,
                  placed := False, btnBurst_disabled := True, btnPause_text := ''pause'',
                  paused := False, status := StatusFindSurface\<rparr>)"

definition togglePause :: "state \<Rightarrow> state" where
  "togglePause s =
     (let p = \<not> paused s
      in s\<lparr>paused := p, btnPause_text := (if p then ''resume'' else ''pause'')\<rparr>)"

definition sessionstart :: "state \<Rightarrow> state" where
  "sessionstart s = s\<lparr>hitTestSource := True, clock := True, lastSpawnAt := 0\<rparr>"

definition sessionend :: "state \<Rightarrow> state" where
  "sessionend s =
     s\<lparr>hitTestSource := False, placed := False, status := StatusFindSurface,
       btnBurst_disabled := True\<rparr>"

section \<open>Runs of the program\<close>

text \<open>The state \<open>init\<close> leaves behind; the texts of the page are whatever the HTML
  holds.\<close>

definition is_initial :: "state \<Rightarrow> bool" where
  "is_initial s \<longleftrightarrow>
     coins s = [] \<and> scene s = [] \<and> tweens s = [] \<and> score s = 0 \<and> \<not> placed s \<and>
     \<not> paused s \<and> lastSpawnAt s = 0 \<and> nextMesh s = 0 \<and> nextMat s = 0 \<and>
     coinMat s = None \<and> \<not> reticle_visible s \<and> \<not> hitTestSource s \<and> \<not> clock s \<and>
     spawnRoot_position s = Vec3 0 0 0 \<and> spawnRoot_quaternion s = Quat 0 0 0 1"

datatype event =
  XRFrame frame_in
  | AnimationFrame "nat \<Rightarrow> real"
  | PointerDown pointer_in
  | ClickReset
  | ClickPause
  | ClickBurst "nat \<Rightarrow> spawn_in"
  | SessionStart
  | SessionEnd

fun handle :: "three \<Rightarrow> event \<Rightarrow> state \<Rightarrow> state" where
  "handle L (XRFrame i) s = onXRFrame L i s"
| "handle L (AnimationFrame nows) s = runTweens L nows s"
| "handle L (PointerDown i) s = onPointerDown L i s"
| "handle L ClickReset s = resetGame s"
| "handle L ClickPause s = togglePause s"
| "handle L (ClickBurst ins) s = spawnBurst L ins s"
| "handle L SessionStart s = sessionstart s"
| "handle L SessionEnd s = sessionend s"

inductive reachable :: "three \<Rightarrow> state \<Rightarrow> bool" for L :: three where
  initial: "is_initial s \<Longrightarrow> reachable L s"
| event: "reachable L s \<Longrightarrow> reachable L (handle L e s)"

section \<open>Predicates used in the statements\<close>

text \<open>The pool is a proper \<open>Set\<close> of allocated meshes: no handle occurs twice and
  every handle was handed out by the allocation counter.\<close>

definition pool_ok :: "state \<Rightarrow> bool" where
  "pool_ok s \<longleftrightarrow> distinct (coins s) \<and> list_all (\<lambda>c. c < nextMesh s) (coins s)"

text \<open>The population invariant: a proper pool within the cap.\<close>

definition pool_inv :: "state \<Rightarrow> bool" where
  "pool_inv s \<longleftrightarrow> pool_ok s \<and> length (coins s) \<le> MAX_COINS"

text \<open>The expiry test of \<open>updateCoins\<close>.\<close>

definition expired :: "state \<Rightarrow> real \<Rightarrow> nat \<Rightarrow> bool" where
  "expired s nowMs c \<longleftrightarrow> nowMs - createdAt (meshes s c) > COIN_LIFETIME"

section \<open>Concrete inputs\<close>

text \<open>An instance of the three.js interface for running the model on concrete
  inputs: rotation by a quaternion, colour channels as bytes over 255, and a
  \<open>lookAt\<close> that leaves the rotation at zero. The general theorems below hold for
  every instance.\<close>

definition three_plain :: three where
  "three_plain =
     \<lparr>applyQuaternion = (\<lambda>v q.
        (let tx = 2 * (qy q * vz v - qz q * vy v);
             ty = 2 * (qz q * vx v - qx q * vz v);
             tz = 2 * (qx q * vy v - qy q * vx v)
         in Vec3 (vx v + qw q * tx + qy q * tz - qz q * ty)
                 (vy v + qw q * ty + qz q * tx - qx q * tz)
                 (vz v + qw q * tz + qx q * ty - qy q * tx))),
      lookAtEuler = (\<lambda>p t. Vec3 0 0 0),
      colorOfHex = (\<lambda>h. Color (real (h div 65536 mod 256) / 255)
                              (real (h div 256 mod 256) / 255)
                              (real (h mod 256) / 255)),
      getHex = (\<lambda>c. nat \<lfloor>cr c * 255 + 1 / 2\<rfloor> * 65536 + nat \<lfloor>cg c * 255 + 1 / 2\<rfloor> * 256
                      + nat \<lfloor>cb c * 255 + 1 / 2\<rfloor>)\<rparr>"

definition blank_material :: material where
  "blank_material =
     \<lparr>color = Color 0 0 0, emissive = Color 0 0 0, metalness = 0, roughness = 0,
      opacity = 1, transparent = False\<rparr>"

definition blank_mesh :: mesh where
  "blank_mesh =
     \<lparr>position = Vec3 0 0 0, rotation = Vec3 0 0 0, scale = Vec3 1 1 1, material = 0,
      createdAt = 0, spin = 0, bobAmp = 0, phase = 0\<rparr>"

text \<open>The state after \<open>init\<close> on a page whose burst button starts disabled.\<close>

definition start_state :: state where
  "start_state =
     \<lparr>meshes = (\<lambda>a. blank_mesh), nextMesh = 0, materials = (\<lambda>a. blank_material),
      nextMat = 0, coinMat = None, coins = [], scene = [], tweens = [], score = 0,
      placed = False, paused = False, lastSpawnAt = 0, spawnRoot_position = Vec3 0 0 0,
      spawnRoot_quaternion = Quat 0 0 0 1, reticle_visible = False,
      reticle_position = Vec3 0 0 0, reticle_quaternion = Quat 0 0 0 1,
      reticle_scale = Vec3 1 1 1, hitTestSource = False, clock = False,
      status = StatusHtml, btnBurst_disabled = True, btnPause_text = ''pause'',
      hud_score = 0, hud_alive = 0\<rparr>"

text \<open>A tap with the camera 1.6 m above the origin, looking down the negative z axis,
  that hits no coin; and the draws of a coin made at time \<open>t\<close> with every random
  number 0.\<close>

definition tap :: pointer_in where
  "tap = \<lparr>cam_origin = Vec3 0 1.6 0, cam_quaternion = Quat 0 0 0 1, p_pick = None,
          p_clk = (0, 0)\<rparr>"

definition draws :: "real \<Rightarrow> spawn_in" where
  "draws t =
     \<lparr>sp_now = t, r_spin = 0, r_sign = 0, r_bob = 0, r_phase = 0, r_radius = 0,
      r_theta = 0, cam_world = Vec3 0 1.6 0\<rparr>"

text \<open>A short run: fallback placement, a coin spawned by the tick at 2000 ms, a
  second one by the tick at 4000 ms, then the first coin collected at 5000 ms with
  the tween's first call 90 ms later.\<close>

definition placed_state :: state where
  "placed_state = onPointerDown three_plain tap start_state"

definition one_coin :: state where
  "one_coin = maybeSpawnCoins three_plain 2000 0 (draws 2000) placed_state"

definition two_coins :: state where
  "two_coins = maybeSpawnCoins three_plain 4000 0 (draws 4000) one_coin"

definition after_collect :: state where
  "after_collect = collect three_plain 0 (5000, 5090) two_coins"

text \<open>A frame callback at time \<open>t\<close>: no XR frame object, jitter draw 0, the head at
  the camera position of \<open>tap\<close>.\<close>

definition frame_at :: "real \<Rightarrow> frame_in" where
  "frame_at t =
     \<lparr>f_time = t, f_frame = None, f_delta = 0.016, f_jitter = 0, f_spawn = draws t,
      f_head = Vec3 0 1.6 0, f_clk = (\<lambda>c. (t, t))\<rparr>"

text \<open>A placed session whose pool holds 25 coins.\<close>

definition crowded :: state where
  "crowded = start_state\<lparr>placed := True, coins := [0..<25], scene := [0..<25], nextMesh := 25\<rparr>"

section \<open>Spawning: the pool grows by fresh handles\<close>

lemmas spawn_defs =
  spawnCoin_def makeCoin_def getSharedCoinMat_def positionCoinAroundRoot_def

lemma spawnCoin_coins: "coins (spawnCoin L i s) = set_add (nextMesh s) (coins s)"
  by (simp add: spawn_defs Let_def split: option.splits prod.splits)

lemma spawnCoin_nextMesh: "nextMesh (spawnCoin L i s) = Suc (nextMesh s)"
  by (simp add: spawn_defs Let_def split: option.splits prod.splits)

lemma spawnCoin_frame:
  "score (spawnCoin L i s) = score s" "placed (spawnCoin L i s) = placed s"
  "paused (spawnCoin L i s) = paused s" "lastSpawnAt (spawnCoin L i s) = lastSpawnAt s"
  "tweens (spawnCoin L i s) = tweens s"
  by (simp_all add: spawn_defs Let_def split: option.splits prod.splits)

lemma set_add_length_le: "length (set_add c xs) \<le> Suc (length xs)"
  by (simp add: set_add_def)

lemma spawnCoin_pool_ok:
  assumes "pool_ok s"
  shows "pool_ok (spawnCoin L i s)"
    and "coins (spawnCoin L i s) = coins s @ [nextMesh s]"
proof -
  from assms have fresh: "nextMesh s \<notin> set (coins s)"
    by (auto simp: pool_ok_def list_all_iff)
  then show c: "coins (spawnCoin L i s) = coins s @ [nextMesh s]"
    by (simp add: spawnCoin_coins set_add_def)
  show "pool_ok (spawnCoin L i s)"
    using assms fresh by (auto simp: pool_ok_def c spawnCoin_nextMesh list_all_iff)
qed

lemma burst_loop_frame:
  "score (burst_loop L ins i n s) = score s \<and> placed (burst_loop L ins i n s) = placed s \<and>
   paused (burst_loop L ins i n s) = paused s \<and>
   lastSpawnAt (burst_loop L ins i n s) = lastSpawnAt s \<and>
   tweens (burst_loop L ins i n s) = tweens s"
proof (induction L ins i n s rule: burst_loop.induct)
  case (1 L ins i n s)
  show ?case
  proof (cases "int i < n")
    case True
    with 1 show ?thesis
      by (subst (1 2 3 4 5) burst_loop.simps) (simp add: spawnCoin_frame)
  next
    case False
    then show ?thesis by (simp add: burst_loop.simps)
  qed
qed

lemma burst_loop_le:
  "length (coins (burst_loop L ins i n s)) \<le> length (coins s) + nat (n - int i)"
proof (induction L ins i n s rule: burst_loop.induct)
  case (1 L ins i n s)
  show ?case
  proof (cases "int i < n")
    case True
    have "length (coins (spawnCoin L (ins i) s)) \<le> Suc (length (coins s))"
      by (simp add: spawnCoin_coins set_add_length_le)
    moreover have "nat (n - int i) = Suc (nat (n - int (Suc i)))"
      using True by simp
    ultimately show ?thesis
      using 1 [OF True] True by (subst burst_loop.simps) simp
  next
    case False
    then show ?thesis by (simp add: burst_loop.simps)
  qed
qed

lemma burst_loop_exact:
  "pool_ok s \<Longrightarrow>
   pool_ok (burst_loop L ins i n s) \<and>
   coins (burst_loop L ins i n s)
     = coins s @ [nextMesh s ..< nextMesh s + nat (n - int i)]"
proof (induction L ins i n s rule: burst_loop.induct)
  case (1 L ins i n s)
  show ?case
  proof (cases "int i < n")
    case True
    have ok: "pool_ok (spawnCoin L (ins i) s)"
      and c: "coins (spawnCoin L (ins i) s) = coins s @ [nextMesh s]"
      using spawnCoin_pool_ok [OF "1.prems"] by simp_all
    have "nat (n - int i) = Suc (nat (n - int (Suc i)))"
      using True by simp
    then show ?thesis
      using "1.IH" [OF True ok] True c
      by (subst (1 2) burst_loop.simps) (simp add: spawnCoin_nextMesh upt_rec)
  next
    case False
    with "1.prems" show ?thesis by (simp add: burst_loop.simps)
  qed
qed

section \<open>Collection: what \<open>tween\<close> and \<open>collect\<close> touch\<close>

lemma tween_coins: "coins (tween L e t s) = coins s"
  by (simp add: tween_def Let_def)

lemma tween_frame:
  "score (tween L e t s) = score s" "placed (tween L e t s) = placed s"
  "nextMesh (tween L e t s) = nextMesh s" "paused (tween L e t s) = paused s"
  "lastSpawnAt (tween L e t s) = lastSpawnAt s"
  by (simp_all add: tween_def Let_def)

lemma collect_absent: "obj \<notin> set (coins s) \<Longrightarrow> collect L obj ck s = s"
  by (simp add: collect_def)

lemma collect_coins: "coins (collect L obj ck s) = removeAll obj (coins s)"
  by (simp add: collect_def collect_effect_def updateHUD_def tween_coins Let_def)

lemma collect_nextMesh: "nextMesh (collect L obj ck s) = nextMesh s"
  by (simp add: collect_def collect_effect_def updateHUD_def tween_frame Let_def)

lemma collect_score:
  "score (collect L obj ck s) = (if obj \<in> set (coins s) then score s + 1 else score s)"
  by (simp add: collect_def collect_effect_def updateHUD_def tween_frame Let_def)

lemma collect_flags:
  "placed (collect L obj ck s) = placed s" "paused (collect L obj ck s) = paused s"
  "lastSpawnAt (collect L obj ck s) = lastSpawnAt s"
  by (simp_all add: collect_def collect_effect_def updateHUD_def tween_frame Let_def)

lemma collect_material_ref:
  "material (meshes (collect L obj ck s) c) = material (meshes s c)"
  by (simp add: collect_def collect_effect_def tween_def updateHUD_def Let_def)

lemma collect_opacity:
  "obj \<in> set (coins s) \<Longrightarrow>
   opacity (materials (collect L obj ck s) (material (meshes s obj)))
     = 1 - min 1 ((snd ck - fst ck) / 180) \<and>
   transparent (materials (collect L obj ck s) (material (meshes s obj)))"
  by (simp add: collect_def collect_effect_def tween_def updateHUD_def Let_def)

lemma fold_collect_coins:
  "coins (fold (\<lambda>c. collect L c (ck c)) xs s) = filter (\<lambda>c. c \<notin> set xs) (coins s)"
proof (induction xs arbitrary: s)
  case Nil
  show ?case by simp
next
  case (Cons x xs)
  show ?case
    by (simp add: Cons.IH collect_coins removeAll_filter_not_eq conj_commute eq_commute)
qed

lemma fold_collect_nextMesh:
  "nextMesh (fold (\<lambda>c. collect L c (ck c)) xs s) = nextMesh s"
  by (induction xs arbitrary: s) (simp_all add: collect_nextMesh)

lemma fold_collect_score:
  "distinct xs \<Longrightarrow> set xs \<subseteq> set (coins s) \<Longrightarrow>
   score (fold (\<lambda>c. collect L c (ck c)) xs s) = score s + length xs"
proof (induction xs arbitrary: s)
  case Nil
  show ?case by simp
next
  case (Cons x xs)
  from Cons.prems have "set xs \<subseteq> set (coins (collect L x (ck x) s))"
    by (auto simp: collect_coins)
  with Cons.prems Cons.IH [of "collect L x (ck x) s"] show ?case
    by (simp add: collect_score)
qed

section \<open>The concrete run\<close>

lemma start_state_initial: "is_initial start_state"
  by (simp add: is_initial_def start_state_def)

lemma placed_state_fields:
  "placed placed_state \<and> \<not> paused placed_state \<and> coins placed_state = [] \<and>
   spawnRoot_position placed_state = Vec3 0 0.8 (- 1.5)"
  by (simp add: placed_state_def onPointerDown_def start_state_def tap_def three_plain_def
      normalize_v_def length_v_def addScaledVector_def Let_def)

lemmas run_defs =
  maybeSpawnCoins_def placed_state_def onPointerDown_def start_state_def tap_def
  three_plain_def normalize_v_def length_v_def addScaledVector_def Let_def spawn_defs
  updateHUD_def MAX_COINS_def SPAWN_INTERVAL_MS_def draws_def set_add_def scene_add_def
  lerp_def add_v_def SPAWN_RADIUS_MIN_def SPAWN_RADIUS_MAX_def

lemma one_coin_fields:
  "coins one_coin = [0] \<and> nextMesh one_coin = 1 \<and> coinMat one_coin = Some 0 \<and>
   material (meshes one_coin 0) = 0 \<and> opacity (materials one_coin 0) = 1 \<and>
   \<not> transparent (materials one_coin 0) \<and> score one_coin = 0 \<and> placed one_coin \<and>
   position (meshes one_coin 0) = Vec3 0.6 0.82 (- 1.5) \<and> lastSpawnAt one_coin = 2000"
  by (simp add: one_coin_def run_defs)

lemma two_coins_fields:
  "coins two_coins = [0, 1] \<and> nextMesh two_coins = 2 \<and> coinMat two_coins = Some 0 \<and>
   material (meshes two_coins 0) = 0 \<and> material (meshes two_coins 1) = 0 \<and>
   opacity (materials two_coins 0) = 1 \<and> \<not> transparent (materials two_coins 0) \<and>
   score two_coins = 0 \<and> placed two_coins \<and> lastSpawnAt two_coins = 4000"
  by (simp add: two_coins_def one_coin_def run_defs)

lemma after_collect_fields:
  "coins after_collect = [1] \<and> placed after_collect \<and> score after_collect = 1"
  using two_coins_fields
  by (simp add: after_collect_def collect_coins collect_flags collect_score)

section \<open>Burst spawning and the reticle\<close>

lemma spawnCoin_lastSpawnAt_commute:
  "spawnCoin L i (s\<lparr>lastSpawnAt := t\<rparr>) = (spawnCoin L i s)\<lparr>lastSpawnAt := t\<rparr>"
  by (simp add: spawn_defs Let_def split: option.splits prod.splits)

lemma burst_loop_lastSpawnAt_commute:
  "burst_loop L ins i n (s\<lparr>lastSpawnAt := t\<rparr>) = (burst_loop L ins i n s)\<lparr>lastSpawnAt := t\<rparr>"
proof (induction L ins i n s rule: burst_loop.induct)
  case (1 L ins i n s)
  show ?case
  proof (cases "int i < n")
    case True
    with 1 show ?thesis
      by (subst (1 2) burst_loop.simps) (simp add: spawnCoin_lastSpawnAt_commute)
  next
    case False
    then show ?thesis by (simp add: burst_loop.simps)
  qed
qed

lemma spawnBurst_coins:
  assumes "pool_ok s" "placed s" "length (coins s) \<le> MAX_COINS"
  shows "coins (spawnBurst L ins s)
           = coins s @ [nextMesh s ..< nextMesh s + min 10 (MAX_COINS - length (coins s))]"
proof -
  have "nat (min 10 (int MAX_COINS - int (length (coins s)))) = min 10 (MAX_COINS - length (coins s))"
    using assms(3) by simp
  with burst_loop_exact [OF assms(1), of L ins 0 "min 10 (int MAX_COINS - int (length (coins s)))"]
  show ?thesis using assms(2)
    by (simp add: spawnBurst_def updateHUD_def Let_def)
qed

lemma spawnBurst_flags:
  "paused (spawnBurst L ins s) = paused s" "placed (spawnBurst L ins s) = placed s"
  "score (spawnBurst L ins s) = score s" "lastSpawnAt (spawnBurst L ins s) = lastSpawnAt s"
  by (simp_all add: spawnBurst_def updateHUD_def Let_def burst_loop_frame)

lemma crowded_fields: "pool_ok crowded \<and> placed crowded \<and> length (coins crowded) = 25"
  by (simp add: crowded_def pool_ok_def start_state_def list_all_iff)

lemma updateReticle_frame:
  "coins (updateReticle f s) = coins s" "meshes (updateReticle f s) = meshes s"
  "score (updateReticle f s) = score s" "lastSpawnAt (updateReticle f s) = lastSpawnAt s"
  "paused (updateReticle f s) = paused s" "placed (updateReticle f s) = placed s"
  "nextMesh (updateReticle f s) = nextMesh s" "tweens (updateReticle f s) = tweens s"
  "materials (updateReticle f s) = materials s"
  "spawnRoot_position (updateReticle f s) = spawnRoot_position s"
  "spawnRoot_quaternion (updateReticle f s) = spawnRoot_quaternion s"
  by (simp_all add: updateReticle_def Let_def split: option.splits list.splits)

section \<open>Stale handles (C7)\<close>

text \<open>
  C7. Calling \<open>collect\<close> on an object that is not in the pool returns the state as it
  was: pool, score and everything else are unchanged. So does a tap, once the spawn
  point is placed, whose raycast reports such an object. In particular a second
  \<open>collect\<close> of the same object, whatever the first one did, changes nothing. The
  functions are total: no path of \<open>collect\<close> fails.
\<close>

theorem collect_not_in_pool_noop:
  assumes "obj \<notin> set (coins s)"
  shows "collect L obj ck s = s \<and>
         (placed s \<and> p_pick i = Some obj \<longrightarrow> onPointerDown L i s = s) \<and>
         collect L c ck2 (collect L c ck1 s) = collect L c ck1 s"
proof -
  have "collect L c ck2 (collect L c ck1 s) = collect L c ck1 s"
    by (rule collect_absent) (simp add: collect_coins)
  with assms show ?thesis
    by (simp add: collect_absent onPointerDown_def)
qed

theorem collect_not_in_pool_noop_witness:
  "0 \<notin> set (coins after_collect) \<and>
   collect three_plain 0 (6000, 6000) after_collect = after_collect \<and>
   onPointerDown three_plain (tap\<lparr>p_pick := Some 0\<rparr>) after_collect = after_collect"
proof -
  have h: "0 \<notin> set (coins after_collect)"
    by (simp add: after_collect_fields)
  show ?thesis
    using h collect_not_in_pool_noop [OF h, of three_plain "(6000, 6000)"
        "tap\<lparr>p_pick := Some 0\<rparr>"]
    by (simp add: after_collect_fields)
qed

section \<open>Reset (C8)\<close>

text \<open>
  C8. \<open>resetGame\<close> empties the pool, sets the score to 0, clears \<open>placed\<close> and
  \<open>paused\<close>, and takes the pool's meshes out of the scene. It starts no tween and
  runs none: the waiting tweens, the meshes and the materials are as before. A second
  \<open>resetGame\<close> right after the first leaves the state as the first left it.
\<close>

theorem resetGame_postcondition_idempotent:
  "coins (resetGame s) = [] \<and> score (resetGame s) = 0 \<and> \<not> placed (resetGame s) \<and>
   \<not> paused (resetGame s) \<and> set (scene (resetGame s)) = set (scene s) - set (coins s) \<and>
   tweens (resetGame s) = tweens s \<and> meshes (resetGame s) = meshes s \<and>
   materials (resetGame s) = materials s \<and>
   resetGame (resetGame s) = resetGame s"
proof -
  have sc: "set (fold removeAll xs ys) = set ys - set xs" for xs ys :: "nat list"
    by (induction xs arbitrary: ys) auto
  show ?thesis
    by (simp add: resetGame_def updateHUD_def sc)
qed

theorem resetGame_postcondition_idempotent_witness:
  "coins (resetGame two_coins) = [] \<and> score (resetGame after_collect) = 0 \<and>
   \<not> placed (resetGame two_coins) \<and>
   resetGame (resetGame two_coins) = resetGame two_coins"
  using resetGame_postcondition_idempotent [of two_coins]
    resetGame_postcondition_idempotent [of after_collect]
  by simp

section \<open>Burst clamping (C6)\<close>

text \<open>
  C6. In a placed session whose pool is a proper set within the cap, \<open>spawnBurst\<close>
  appends exactly \<open>min 10 (MAX_COINS - size)\<close> fresh coins to the pool, so the pool
  stays within the cap. It never looks at \<open>lastSpawnAt\<close> and leaves it alone: the
  interval check is bypassed. With 25 coins in the pool, 5 are spawned and the pool
  holds 30.
\<close>

theorem spawnBurst_clamped:
  assumes "pool_ok s" "placed s" "length (coins s) \<le> MAX_COINS"
  shows "coins (spawnBurst L ins s)
           = coins s @ [nextMesh s ..< nextMesh s + min 10 (MAX_COINS - length (coins s))] \<and>
         length (coins (spawnBurst L ins s))
           = length (coins s) + min 10 (MAX_COINS - length (coins s)) \<and>
         length (coins (spawnBurst L ins s)) \<le> MAX_COINS \<and>
         spawnBurst L ins (s\<lparr>lastSpawnAt := t\<rparr>) = (spawnBurst L ins s)\<lparr>lastSpawnAt := t\<rparr> \<and>
         lastSpawnAt (spawnBurst L ins s) = lastSpawnAt s \<and>
         (length (coins s) = 25 \<longrightarrow> length (coins (spawnBurst L ins s)) = 30)"
proof -
  note c = spawnBurst_coins [OF assms, of L ins]
  have len: "length (coins (spawnBurst L ins s))
           = length (coins s) + min 10 (MAX_COINS - length (coins s))"
    by (simp add: c)
  have "spawnBurst L ins (s\<lparr>lastSpawnAt := t\<rparr>) = (spawnBurst L ins s)\<lparr>lastSpawnAt := t\<rparr>"
    by (simp add: spawnBurst_def updateHUD_def Let_def burst_loop_lastSpawnAt_commute)
  with c len assms(3) show ?thesis
    by (simp add: spawnBurst_flags MAX_COINS_def)
qed

theorem spawnBurst_clamped_witness:
  "pool_ok crowded \<and> placed crowded \<and> length (coins crowded) = 25 \<and>
   length (coins (spawnBurst three_plain (\<lambda>i. draws 0) crowded)) = 30 \<and>
   coins (spawnBurst three_plain (\<lambda>i. draws 0) crowded) = coins crowded @ [25, 26, 27, 28, 29]"
proof -
  have h: "pool_ok crowded" "placed crowded" "length (coins crowded) \<le> MAX_COINS"
    by (simp_all add: crowded_fields MAX_COINS_def)
  have n: "nextMesh crowded = 25" by (simp add: crowded_def)
  have u: "[25..<30] = [25, 26, 27, 28, 29::nat]" by (simp add: upt_rec)
  show ?thesis
    using spawnBurst_clamped [OF h, of three_plain "\<lambda>i. draws 0"] crowded_fields
    by (simp add: MAX_COINS_def n u)
qed

section \<open>Burst while paused (C10)\<close>

text \<open>
  C10. \<open>spawnBurst\<close> tests \<open>placed\<close> only. In a placed and paused session (pool a
  proper set within the cap) a burst adds \<open>min 10 (MAX_COINS - size)\<close> coins and
  the session stays paused, while a frame callback in the same state leaves pool,
  meshes, score and \<open>lastSpawnAt\<close> as they are.
\<close>

theorem burst_while_paused:
  assumes "pool_ok s" "placed s" "paused s" "length (coins s) \<le> MAX_COINS"
  shows "length (coins (spawnBurst L ins s))
           = length (coins s) + min 10 (MAX_COINS - length (coins s)) \<and>
         paused (spawnBurst L ins s) \<and>
         coins (onXRFrame L i s) = coins s \<and> meshes (onXRFrame L i s) = meshes s \<and>
         score (onXRFrame L i s) = score s \<and> lastSpawnAt (onXRFrame L i s) = lastSpawnAt s"
  using assms spawnBurst_coins [OF assms(1,2,4), of L ins]
  by (simp add: spawnBurst_flags onXRFrame_def Let_def updateReticle_frame)

theorem burst_while_paused_witness:
  "paused (togglePause crowded) \<and> placed (togglePause crowded) \<and>
   length (coins (togglePause crowded)) = 25 \<and>
   length (coins (spawnBurst three_plain (\<lambda>i. draws 0) (togglePause crowded))) = 30"
proof -
  have f: "pool_ok (togglePause crowded)" "placed (togglePause crowded)"
    "paused (togglePause crowded)" "length (coins (togglePause crowded)) = 25"
    using crowded_fields by (simp_all add: togglePause_def pool_ok_def Let_def crowded_def start_state_def)
  have h: "length (coins (togglePause crowded)) \<le> MAX_COINS"
    by (simp add: f MAX_COINS_def)
  show ?thesis
    using burst_while_paused [OF f(1,2,3) h, of three_plain "\<lambda>i. draws 0"] f
    by (simp add: MAX_COINS_def)
qed

section \<open>Placement gate (C9)\<close>



section \<open>Expiry: what \<open>updateCoins\<close> touches\<close>

lemma updateCoins_scan_frame:
  "coins (fst (updateCoins_scan dt t cs (s, tr))) = coins s \<and>
   nextMesh (fst (updateCoins_scan dt t cs (s, tr))) = nextMesh s \<and>
   score (fst (updateCoins_scan dt t cs (s, tr))) = score s \<and>
   tweens (fst (updateCoins_scan dt t cs (s, tr))) = tweens s \<and>
   materials (fst (updateCoins_scan dt t cs (s, tr))) = materials s \<and>
   scene (fst (updateCoins_scan dt t cs (s, tr))) = scene s \<and>
   placed (fst (updateCoins_scan dt t cs (s, tr))) = placed s \<and>
   paused (fst (updateCoins_scan dt t cs (s, tr))) = paused s \<and>
   lastSpawnAt (fst (updateCoins_scan dt t cs (s, tr))) = lastSpawnAt s \<and>
   hud_score (fst (updateCoins_scan dt t cs (s, tr))) = hud_score s \<and>
   hud_alive (fst (updateCoins_scan dt t cs (s, tr))) = hud_alive s"
  by (induction cs arbitrary: s tr) (simp_all add: Let_def)

lemma updateCoins_scan_meshes:
  "createdAt (meshes (fst (updateCoins_scan dt t cs (s, tr))) c) = createdAt (meshes s c) \<and>
   scale (meshes (fst (updateCoins_scan dt t cs (s, tr))) c) = scale (meshes s c) \<and>
   material (meshes (fst (updateCoins_scan dt t cs (s, tr))) c) = material (meshes s c)"
  by (induction cs arbitrary: s tr) (simp_all add: Let_def)

lemma updateCoins_scan_batch:
  "snd (updateCoins_scan dt t cs (s, tr)) = tr @ filter (expired s t) cs"
proof (induction cs arbitrary: s tr)
  case Nil
  show ?case by simp
next
  case (Cons c cs)
  have "expired (s\<lparr>meshes := (meshes s)(c := m)\<rparr>) t = expired s t"
    if "createdAt m = createdAt (meshes s c)" for m
    using that by (auto simp: expired_def fun_eq_iff)
  then show ?case
    by (simp add: Cons.IH Let_def) (simp add: expired_def)
qed

lemma updateCoins_evict_coins:
  "coins (updateCoins_evict tr s) = filter (\<lambda>c. c \<notin> set tr) (coins s) \<and>
   scene (updateCoins_evict tr s) = filter (\<lambda>c. c \<notin> set tr) (scene s)"
  by (induction tr arbitrary: s)
    (simp_all add: removeAll_filter_not_eq conj_commute eq_commute)

lemma updateCoins_evict_frame:
  "nextMesh (updateCoins_evict tr s) = nextMesh s \<and>
   score (updateCoins_evict tr s) = score s \<and> tweens (updateCoins_evict tr s) = tweens s \<and>
   materials (updateCoins_evict tr s) = materials s \<and>
   meshes (updateCoins_evict tr s) = meshes s \<and>
   placed (updateCoins_evict tr s) = placed s \<and> paused (updateCoins_evict tr s) = paused s \<and>
   lastSpawnAt (updateCoins_evict tr s) = lastSpawnAt s \<and>
   hud_score (updateCoins_evict tr s) = hud_score s \<and>
   hud_alive (updateCoins_evict tr s) = hud_alive s"
  by (induction tr arbitrary: s) simp_all

lemma updateCoins_coins:
  "coins (updateCoins dt t s) = filter (\<lambda>c. \<not> expired s t c) (coins s)"
proof -
  have "coins (updateCoins dt t s)
          = coins (updateCoins_evict (snd (updateCoins_scan dt t (coins s) (s, [])))
                     (fst (updateCoins_scan dt t (coins s) (s, []))))"
    by (simp add: updateCoins_def Let_def split_beta updateHUD_def)
  also have "\<dots> = filter (\<lambda>c. c \<notin> set (filter (expired s t) (coins s))) (coins s)"
    by (simp only: updateCoins_evict_coins updateCoins_scan_frame updateCoins_scan_batch
        append_Nil)
  also have "\<dots> = filter (\<lambda>c. \<not> expired s t c) (coins s)"
    by (rule filter_cong) auto
  finally show ?thesis .
qed

lemma updateCoins_frame:
  "nextMesh (updateCoins dt t s) = nextMesh s" "score (updateCoins dt t s) = score s"
  "tweens (updateCoins dt t s) = tweens s" "materials (updateCoins dt t s) = materials s"
  "placed (updateCoins dt t s) = placed s" "paused (updateCoins dt t s) = paused s"
  "lastSpawnAt (updateCoins dt t s) = lastSpawnAt s"
  by (simp_all add: updateCoins_def Let_def split_beta updateHUD_def updateCoins_evict_frame
      updateCoins_scan_frame)

lemma updateCoins_meshes:
  "createdAt (meshes (updateCoins dt t s) c) = createdAt (meshes s c) \<and>
   scale (meshes (updateCoins dt t s) c) = scale (meshes s c) \<and>
   material (meshes (updateCoins dt t s) c) = material (meshes s c)"
  by (simp add: updateCoins_def Let_def split_beta updateHUD_def updateCoins_evict_frame
      updateCoins_scan_meshes)

section \<open>Expiry is a silent despawn (C4)\<close>

text \<open>
  C4. In \<open>updateCoins\<close> the scanning loop leaves \<open>coins\<close> as it is and collects in
  \<open>toRemove\<close> exactly the coins with \<open>nowMs - createdAt > COIN_LIFETIME\<close>; after
  the loop these, and only these, leave the pool, so the live count drops by their
  number. The score, the waiting tweens, the materials and every mesh's scale are
  untouched (no score increment, no collection effect); the displayed live count is
  refreshed when something was removed.
\<close>

theorem expiry_silent_despawn:
  "coins (fst (updateCoins_scan dt nowMs (coins s) (s, []))) = coins s \<and>
   snd (updateCoins_scan dt nowMs (coins s) (s, [])) = filter (expired s nowMs) (coins s) \<and>
   coins (updateCoins dt nowMs s) = filter (\<lambda>c. \<not> expired s nowMs c) (coins s) \<and>
   length (coins (updateCoins dt nowMs s))
     = length (coins s) - length (filter (expired s nowMs) (coins s)) \<and>
   score (updateCoins dt nowMs s) = score s \<and>
   tweens (updateCoins dt nowMs s) = tweens s \<and>
   materials (updateCoins dt nowMs s) = materials s \<and>
   (\<forall>c. scale (meshes (updateCoins dt nowMs s) c) = scale (meshes s c)) \<and>
   (if filter (expired s nowMs) (coins s) = [] then hud_alive (updateCoins dt nowMs s) = hud_alive s
    else hud_alive (updateCoins dt nowMs s) = length (coins (updateCoins dt nowMs s)))"
proof -
  have "length (filter (\<lambda>c. \<not> expired s nowMs c) (coins s))
          = length (coins s) - length (filter (expired s nowMs) (coins s))"
    using sum_length_filter_compl [of "expired s nowMs" "coins s"] by simp
  moreover have "(if filter (expired s nowMs) (coins s) = [] then hud_alive (updateCoins dt nowMs s) = hud_alive s
    else hud_alive (updateCoins dt nowMs s) = length (coins (updateCoins dt nowMs s)))"
    by (simp add: updateCoins_def Let_def split_beta updateHUD_def updateCoins_evict_frame
      updateCoins_scan_frame updateCoins_scan_batch updateCoins_evict_coins)
  ultimately show ?thesis
    by (simp add: updateCoins_coins updateCoins_frame updateCoins_meshes updateCoins_scan_frame
        updateCoins_scan_batch)
qed

lemma two_coins_created: "createdAt (meshes two_coins 0) = 2000 \<and> createdAt (meshes two_coins 1) = 4000"
  by (simp add: two_coins_def one_coin_def run_defs)

theorem expiry_silent_despawn_witness:
  "coins (updateCoins 0.016 23000 two_coins) = [1] \<and>
   score (updateCoins 0.016 23000 two_coins) = 0 \<and>
   tweens (updateCoins 0.016 23000 two_coins) = tweens two_coins \<and>
   hud_alive (updateCoins 0.016 23000 two_coins) = 1 \<and>
   coins (updateCoins 0.016 22000 two_coins) = [0, 1]"
proof -
  have e: "expired two_coins 23000 0" "\<not> expired two_coins 23000 1"
     "\<not> expired two_coins 22000 0" "\<not> expired two_coins 22000 1"
    using two_coins_created by (simp_all add: expired_def COIN_LIFETIME_def)
  show ?thesis
    using expiry_silent_despawn [where dt = "0.016" and nowMs = 23000 and s = two_coins]
      expiry_silent_despawn [where dt = "0.016" and nowMs = 22000 and s = two_coins]
      two_coins_fields e
    by simp
qed

section \<open>Every handler keeps the pool a proper set within the cap\<close>

lemma pool_inv_filter:
  assumes "pool_inv s" "coins s' = filter P (coins s)" "nextMesh s' = nextMesh s"
  shows "pool_inv s'"
proof -
  have "length (filter P (coins s)) \<le> MAX_COINS"
    using assms(1) by (intro le_trans [OF length_filter_le]) (simp add: pool_inv_def)
  then have "length (coins s') \<le> MAX_COINS"
    using assms(2) by simp
  moreover have "pool_ok s'"
    using assms by (auto simp: pool_inv_def pool_ok_def list_all_iff)
  ultimately show ?thesis by (simp add: pool_inv_def)
qed

lemma pool_inv_same:
  "pool_inv s \<Longrightarrow> coins s' = coins s \<Longrightarrow> nextMesh s' = nextMesh s \<Longrightarrow> pool_inv s'"
  by (simp add: pool_inv_def pool_ok_def)

lemma maybeSpawnCoins_inv: "pool_inv s \<Longrightarrow> pool_inv (maybeSpawnCoins L t r i s)"
proof -
  assume a: "pool_inv s"
  have ok: "pool_ok (s\<lparr>lastSpawnAt := t\<rparr>)" using a by (simp add: pool_inv_def pool_ok_def)
  show ?thesis
    using a spawnCoin_pool_ok [OF ok, of L i]
    by (auto simp: maybeSpawnCoins_def pool_inv_def updateHUD_def pool_ok_def)
qed

lemma spawnBurst_inv: "pool_inv s \<Longrightarrow> pool_inv (spawnBurst L ins s)"
proof -
  assume a: "pool_inv s"
  then have ok: "pool_ok s" and le: "length (coins s) \<le> MAX_COINS"
    by (simp_all add: pool_inv_def)
  show ?thesis
  proof (cases "placed s")
    case True
    have "pool_ok (burst_loop L ins 0 (min 10 (int MAX_COINS - int (length (coins s)))) s)"
      using burst_loop_exact [OF ok] by simp
    then have "pool_ok (spawnBurst L ins s)"
      using True by (simp add: spawnBurst_def Let_def updateHUD_def pool_ok_def)
    moreover have "length (coins (spawnBurst L ins s)) \<le> MAX_COINS"
      using spawnBurst_coins [OF ok True le, of L ins] le by simp
    ultimately show ?thesis by (simp add: pool_inv_def)
  next
    case False
    with a show ?thesis by (simp add: spawnBurst_def)
  qed
qed

lemma updateCoins_inv: "pool_inv s \<Longrightarrow> pool_inv (updateCoins dt t s)"
  by (erule pool_inv_filter) (simp_all add: updateCoins_coins updateCoins_frame)

lemma checkProximityCollect_coins:
  "coins (checkProximityCollect L h ck s) = filter (\<lambda>c. \<not> near s h c) (coins s)"
proof -
  have "filter (\<lambda>c. c \<notin> set (filter (near s h) (coins s))) (coins s)
          = filter (\<lambda>c. \<not> near s h c) (coins s)"
    by (rule filter_cong) auto
  then show ?thesis
    by (simp add: checkProximityCollect_def Let_def fold_collect_coins)
qed

lemma checkProximityCollect_inv: "pool_inv s \<Longrightarrow> pool_inv (checkProximityCollect L h ck s)"
  by (erule pool_inv_filter)
    (simp_all add: checkProximityCollect_coins, simp add: checkProximityCollect_def Let_def fold_collect_nextMesh)

lemma collect_inv: "pool_inv s \<Longrightarrow> pool_inv (collect L c k s)"
  by (erule pool_inv_filter [where P = "\<lambda>x. x \<noteq> c"])
    (simp_all add: collect_coins collect_nextMesh removeAll_filter_not_eq eq_commute)

lemma fold_tween_frame:
  "coins (fold (\<lambda>(k, e). tween L e (nows k)) xs s) = coins s \<and>
   nextMesh (fold (\<lambda>(k, e). tween L e (nows k)) xs s) = nextMesh s \<and>
   score (fold (\<lambda>(k, e). tween L e (nows k)) xs s) = score s \<and>
   placed (fold (\<lambda>(k, e). tween L e (nows k)) xs s) = placed s \<and>
   paused (fold (\<lambda>(k, e). tween L e (nows k)) xs s) = paused s \<and>
   lastSpawnAt (fold (\<lambda>(k, e). tween L e (nows k)) xs s) = lastSpawnAt s"
  by (induction xs arbitrary: s) (simp_all add: split_beta tween_coins tween_frame)

lemma runTweens_inv: "pool_inv s \<Longrightarrow> pool_inv (runTweens L nows s)"
  by (erule pool_inv_same) (simp_all add: runTweens_def fold_tween_frame)

lemma updateReticle_inv: "pool_inv s \<Longrightarrow> pool_inv (updateReticle f s)"
  by (erule pool_inv_same) (simp_all add: updateReticle_frame)

lemma onXRFrame_inv: "pool_inv s \<Longrightarrow> pool_inv (onXRFrame L i s)"
  by (simp add: onXRFrame_def Let_def updateReticle_inv maybeSpawnCoins_inv updateCoins_inv
      checkProximityCollect_inv)

lemma onPointerDown_inv: "pool_inv s \<Longrightarrow> pool_inv (onPointerDown L i s)"
proof (cases "placed s")
  case True
  assume "pool_inv s"
  with True show ?thesis
    by (simp add: onPointerDown_def collect_inv split: option.splits)
next
  case False
  assume "pool_inv s"
  with False show ?thesis
    by (simp add: onPointerDown_def Let_def pool_inv_def pool_ok_def)
qed

lemma resetGame_inv: "pool_inv (resetGame s)"
  by (simp add: resetGame_def updateHUD_def pool_inv_def pool_ok_def)

lemma handle_inv: "pool_inv s \<Longrightarrow> pool_inv (handle L e s)"
proof (cases e)
  case (XRFrame i)
  assume "pool_inv s" with XRFrame show ?thesis by (simp add: onXRFrame_inv)
next
  case (AnimationFrame nows)
  assume "pool_inv s" with AnimationFrame show ?thesis by (simp add: runTweens_inv)
next
  case (PointerDown i)
  assume "pool_inv s" with PointerDown show ?thesis by (simp add: onPointerDown_inv)
next
  case ClickReset
  then show ?thesis by (simp add: resetGame_inv)
next
  case ClickPause
  assume "pool_inv s" with ClickPause show ?thesis
    by (simp add: togglePause_def Let_def pool_inv_def pool_ok_def)
next
  case (ClickBurst ins)
  assume "pool_inv s" with ClickBurst show ?thesis by (simp add: spawnBurst_inv)
next
  case SessionStart
  assume "pool_inv s" with SessionStart show ?thesis
    by (simp add: sessionstart_def pool_inv_def pool_ok_def)
next
  case SessionEnd
  assume "pool_inv s" with SessionEnd show ?thesis
    by (simp add: sessionend_def pool_inv_def pool_ok_def)
qed

lemma reachable_pool_inv: "reachable L s \<Longrightarrow> pool_inv s"
proof (induction rule: reachable.induct)
  case (initial s)
  then show ?case by (simp add: is_initial_def pool_inv_def pool_ok_def)
next
  case (event s e)
  then show ?case by (simp add: handle_inv)
qed

section \<open>Population invariant (C1)\<close>

text \<open>
  C1. In every state reachable from the initial one by frame callbacks, animation
  frames, taps and clicks on reset, pause and burst, session start and session end,
  the pool holds between 0 and \<open>MAX_COINS\<close> = 30 coins, each once. From such a
  state the per-tick spawn, the burst, expiry, proximity collection, a single
  collect, reset, and any handler at all lead to a pool within the cap again.
\<close>

theorem population_invariant:
  assumes "reachable L s"
  shows "0 \<le> length (coins s) \<and> length (coins s) \<le> MAX_COINS \<and> distinct (coins s) \<and>
         length (coins (maybeSpawnCoins L t r i s)) \<le> MAX_COINS \<and>
         length (coins (spawnBurst L ins s)) \<le> MAX_COINS \<and>
         length (coins (updateCoins dt t s)) \<le> MAX_COINS \<and>
         length (coins (checkProximityCollect L h ck s)) \<le> MAX_COINS \<and>
         length (coins (collect L c k s)) \<le> MAX_COINS \<and>
         length (coins (resetGame s)) \<le> MAX_COINS \<and>
         length (coins (handle L e s)) \<le> MAX_COINS"
proof -
  have a: "pool_inv s" using assms by (rule reachable_pool_inv)
  have b: "pool_inv x \<Longrightarrow> length (coins x) \<le> MAX_COINS" for x
    by (simp add: pool_inv_def)
  from a have "distinct (coins s)" by (simp add: pool_inv_def pool_ok_def)
  then show ?thesis
    using b [OF a] b [OF maybeSpawnCoins_inv [OF a]] b [OF spawnBurst_inv [OF a]]
      b [OF updateCoins_inv [OF a]] b [OF checkProximityCollect_inv [OF a]]
      b [OF collect_inv [OF a]] b [OF resetGame_inv] b [OF handle_inv [OF a]]
    by simp
qed

theorem population_invariant_witness:
  "length (coins (handle three_plain (ClickBurst (\<lambda>i. draws 0))
      (handle three_plain (ClickBurst (\<lambda>i. draws 0))
        (handle three_plain (ClickBurst (\<lambda>i. draws 0))
          (handle three_plain (ClickBurst (\<lambda>i. draws 0))
            (handle three_plain (PointerDown tap) start_state)))))) \<le> MAX_COINS"
proof -
  have "reachable three_plain start_state"
    by (rule reachable.initial) (rule start_state_initial)
  then have "reachable three_plain (handle three_plain (ClickBurst (\<lambda>i. draws 0))
        (handle three_plain (ClickBurst (\<lambda>i. draws 0))
          (handle three_plain (ClickBurst (\<lambda>i. draws 0))
            (handle three_plain (PointerDown tap) start_state))))"
    by (intro reachable.event)
  from population_invariant [OF this] show ?thesis
    by simp
qed

section \<open>The spawn timer\<close>

lemma maybeSpawnCoins_nextMesh:
  "nextMesh (maybeSpawnCoins L nowMs rnd i s)
     = (if length (coins s) < MAX_COINS \<and>
           SPAWN_INTERVAL_MS * (0.7 + rnd * 0.8) \<le> nowMs - lastSpawnAt s
        then Suc (nextMesh s) else nextMesh s)"
  by (simp add: maybeSpawnCoins_def updateHUD_def spawnCoin_nextMesh not_less)

lemma maybeSpawnCoins_lastSpawnAt:
  "lastSpawnAt (maybeSpawnCoins L nowMs rnd i s)
     = (if length (coins s) < MAX_COINS \<and>
           SPAWN_INTERVAL_MS * (0.7 + rnd * 0.8) \<le> nowMs - lastSpawnAt s
        then nowMs else lastSpawnAt s)"
  by (simp add: maybeSpawnCoins_def updateHUD_def spawnCoin_frame not_less)

lemma maybeSpawnCoins_idle:
  "\<not> (length (coins s) < MAX_COINS \<and>
      SPAWN_INTERVAL_MS * (0.7 + rnd * 0.8) \<le> nowMs - lastSpawnAt s) \<Longrightarrow>
   maybeSpawnCoins L nowMs rnd i s = s"
  by (auto simp: maybeSpawnCoins_def)

lemma fold_collect_lastSpawnAt:
  "lastSpawnAt (fold (\<lambda>c. collect L c (ck c)) xs s) = lastSpawnAt s"
  by (induction xs arbitrary: s) (simp_all add: collect_flags)

lemma lastSpawnAt_other_handlers:
  assumes "e \<noteq> SessionStart" "\<forall>i. e \<noteq> XRFrame i"
  shows "lastSpawnAt (handle L e s) = lastSpawnAt s"
proof (cases e)
  case (XRFrame i)
  with assms show ?thesis by simp
next
  case (AnimationFrame nows)
  then show ?thesis by (simp add: runTweens_def fold_tween_frame)
next
  case (PointerDown i)
  then show ?thesis
    by (simp add: onPointerDown_def Let_def collect_flags split: option.splits)
next
  case ClickReset
  then show ?thesis by (simp add: resetGame_def updateHUD_def)
next
  case ClickPause
  then show ?thesis by (simp add: togglePause_def Let_def)
next
  case (ClickBurst ins)
  then show ?thesis by (simp add: spawnBurst_flags)
next
  case SessionStart
  with assms show ?thesis by simp
next
  case SessionEnd
  then show ?thesis by (simp add: sessionend_def)
qed

lemma lastSpawnAt_frame:
  "lastSpawnAt (onXRFrame L i s) = lastSpawnAt s \<or> lastSpawnAt (onXRFrame L i s) = f_time i"
  by (simp add: onXRFrame_def Let_def checkProximityCollect_def fold_collect_lastSpawnAt
      updateCoins_frame maybeSpawnCoins_lastSpawnAt updateReticle_frame)

lemma fold_collect_flags:
  "placed (fold (\<lambda>c. collect L c (ck c)) xs s) = placed s \<and>
   paused (fold (\<lambda>c. collect L c (ck c)) xs s) = paused s"
  by (induction xs arbitrary: s) (simp_all add: collect_flags)

lemma maybeSpawnCoins_flags:
  "placed (maybeSpawnCoins L t r i s) = placed s"
  "paused (maybeSpawnCoins L t r i s) = paused s"
  by (simp_all add: maybeSpawnCoins_def updateHUD_def spawnCoin_frame)

lemma maybeSpawnCoins_coins_le:
  "length (coins (maybeSpawnCoins L t r i s)) \<le> Suc (length (coins s))"
  by (simp add: maybeSpawnCoins_def updateHUD_def spawnCoin_coins set_add_length_le)

lemma onXRFrame_flags:
  "placed (onXRFrame L i s) = placed s" "paused (onXRFrame L i s) = paused s"
  by (simp_all add: onXRFrame_def Let_def checkProximityCollect_def fold_collect_flags
      updateCoins_frame maybeSpawnCoins_flags updateReticle_frame)

lemma onXRFrame_nextMesh:
  "nextMesh (onXRFrame L i s)
     = (if \<not> paused s \<and> placed s \<and> length (coins s) < MAX_COINS \<and>
           SPAWN_INTERVAL_MS * (0.7 + f_jitter i * 0.8) \<le> f_time i - lastSpawnAt s
        then Suc (nextMesh s) else nextMesh s)"
  by (simp add: onXRFrame_def Let_def checkProximityCollect_def fold_collect_nextMesh
      updateCoins_frame maybeSpawnCoins_nextMesh updateReticle_frame)

lemma onXRFrame_lastSpawnAt:
  "lastSpawnAt (onXRFrame L i s)
     = (if \<not> paused s \<and> placed s \<and> length (coins s) < MAX_COINS \<and>
           SPAWN_INTERVAL_MS * (0.7 + f_jitter i * 0.8) \<le> f_time i - lastSpawnAt s
        then f_time i else lastSpawnAt s)"
  by (simp add: onXRFrame_def Let_def checkProximityCollect_def fold_collect_lastSpawnAt
      updateCoins_frame maybeSpawnCoins_lastSpawnAt updateReticle_frame)

lemma onXRFrame_coins_le:
  "length (coins (onXRFrame L i s)) \<le> Suc (length (coins s))"
proof -
  have m: "length (coins (maybeSpawnCoins L t r j (updateReticle f s))) \<le> Suc (length (coins s))"
    for t r j f
    using maybeSpawnCoins_coins_le [of L t r j "updateReticle f s"]
    by (simp add: updateReticle_frame)
  have "length (filter P (filter Q (coins (maybeSpawnCoins L t r j (updateReticle f s)))))
          \<le> Suc (length (coins s))" for P Q t r j f
    by (rule le_trans [OF length_filter_le], rule le_trans [OF length_filter_le], rule m)
  then show ?thesis
    by (simp add: onXRFrame_def Let_def checkProximityCollect_coins updateCoins_coins
        updateReticle_frame)
qed

lemma placed_state_more:
  "nextMesh placed_state = 0 \<and> lastSpawnAt placed_state = 0"
  by (simp add: placed_state_def onPointerDown_def start_state_def Let_def)

section \<open>Spawn timing (C5)\<close>

text \<open>
  C5, as stated, fails in its last part: the listener of session start sets
  \<open>lastSpawnAt\<close> to 0 while the clock of the frame callbacks keeps running. In the
  reachable run below (tap with fallback placement, frame at 2000 ms, session start,
  frame at 2016 ms) both frames construct a coin, 16 ms apart, which is less than
  \<open>SPAWN_INTERVAL_MS * 0.7\<close>.
\<close>

theorem spawn_gap_counterexample:
  "reachable three_plain
     (handle three_plain (XRFrame (frame_at 2016))
       (handle three_plain SessionStart
         (handle three_plain (XRFrame (frame_at 2000))
           (handle three_plain (PointerDown tap) start_state)))) \<and>
   nextMesh (handle three_plain (PointerDown tap) start_state) = 0 \<and>
   nextMesh (handle three_plain (XRFrame (frame_at 2000))
              (handle three_plain (PointerDown tap) start_state)) = 1 \<and>
   lastSpawnAt (handle three_plain (XRFrame (frame_at 2000))
              (handle three_plain (PointerDown tap) start_state)) = 2000 \<and>
   nextMesh (handle three_plain SessionStart
              (handle three_plain (XRFrame (frame_at 2000))
                (handle three_plain (PointerDown tap) start_state))) = 1 \<and>
   nextMesh (handle three_plain (XRFrame (frame_at 2016))
              (handle three_plain SessionStart
                (handle three_plain (XRFrame (frame_at 2000))
                  (handle three_plain (PointerDown tap) start_state)))) = 2 \<and>
   \<not> SPAWN_INTERVAL_MS * 0.7 \<le> 2016 - 2000"
proof -
  let ?s0 = "placed_state"
  let ?s1 = "onXRFrame three_plain (frame_at 2000) ?s0"
  let ?s2 = "sessionstart ?s1"
  let ?s3 = "onXRFrame three_plain (frame_at 2016) ?s2"
  have r: "reachable three_plain
     (handle three_plain (XRFrame (frame_at 2016))
       (handle three_plain SessionStart
         (handle three_plain (XRFrame (frame_at 2000))
           (handle three_plain (PointerDown tap) start_state))))"
    by (intro reachable.event reachable.initial start_state_initial)
  have f0: "placed ?s0" "\<not> paused ?s0" "length (coins ?s0) = 0" "nextMesh ?s0 = 0"
    "lastSpawnAt ?s0 = 0"
    using placed_state_fields placed_state_more by simp_all
  have n1: "nextMesh ?s1 = 1" and l1: "lastSpawnAt ?s1 = 2000"
    using f0
    by (simp_all add: onXRFrame_nextMesh onXRFrame_lastSpawnAt frame_at_def MAX_COINS_def
        SPAWN_INTERVAL_MS_def)
  have c1: "length (coins ?s1) \<le> 1"
    using onXRFrame_coins_le [of three_plain "frame_at 2000" ?s0] f0 by simp
  have f2: "placed ?s2" "\<not> paused ?s2" "length (coins ?s2) < MAX_COINS" "nextMesh ?s2 = 1"
    "lastSpawnAt ?s2 = 0"
    using f0 n1 c1 by (simp_all add: sessionstart_def onXRFrame_flags MAX_COINS_def)
  have n3: "nextMesh ?s3 = 2"
    using f2
    by (simp add: onXRFrame_nextMesh frame_at_def SPAWN_INTERVAL_MS_def)
  show ?thesis
    using r f0 n1 l1 f2 n3
    by (simp add: placed_state_def [symmetric] SPAWN_INTERVAL_MS_def)
qed

text \<open>
  C5, amended. \<open>maybeSpawnCoins\<close> constructs a coin only when the pool is below the cap and
  \<open>nowMs - lastSpawnAt\<close> is at least \<open>SPAWN_INTERVAL_MS * (0.7 + rnd * 0.8)\<close>,
  where \<open>rnd\<close> is the draw of this very call; it then sets \<open>lastSpawnAt\<close> to
  \<open>nowMs\<close>, and otherwise returns the state unchanged. Hence, when a call at
  \<open>nowMs\<close> fires and a later call at \<open>nowMs'\<close> (draw at least 0) fires on a state
  whose \<open>lastSpawnAt\<close> is still the one the first call left, the two are at least
  \<open>SPAWN_INTERVAL_MS * 0.7\<close> apart. Apart from a firing frame, the only handler
  that writes \<open>lastSpawnAt\<close> is the one of session start.
\<close>

theorem spawn_timing:
  assumes "0 \<le> rnd'"
  shows "(nextMesh (maybeSpawnCoins L nowMs rnd i s) \<noteq> nextMesh s \<longrightarrow>
            length (coins s) < MAX_COINS \<and>
            SPAWN_INTERVAL_MS * (0.7 + rnd * 0.8) \<le> nowMs - lastSpawnAt s \<and>
            lastSpawnAt (maybeSpawnCoins L nowMs rnd i s) = nowMs) \<and>
         (nextMesh (maybeSpawnCoins L nowMs rnd i s) = nextMesh s \<longrightarrow>
            maybeSpawnCoins L nowMs rnd i s = s) \<and>
         (nextMesh (maybeSpawnCoins L nowMs rnd i s) \<noteq> nextMesh s \<and>
          lastSpawnAt s' = lastSpawnAt (maybeSpawnCoins L nowMs rnd i s) \<and>
          nextMesh (maybeSpawnCoins L nowMs' rnd' i' s') \<noteq> nextMesh s' \<longrightarrow>
            SPAWN_INTERVAL_MS * 0.7 \<le> nowMs' - nowMs) \<and>
         (e \<noteq> SessionStart \<and> (\<forall>j. e \<noteq> XRFrame j) \<longrightarrow>
            lastSpawnAt (handle L e s) = lastSpawnAt s) \<and>
         (lastSpawnAt (onXRFrame L f s) = lastSpawnAt s \<or>
          lastSpawnAt (onXRFrame L f s) = f_time f)"
proof -
  let ?fire = "length (coins s) < MAX_COINS \<and>
               SPAWN_INTERVAL_MS * (0.7 + rnd * 0.8) \<le> nowMs - lastSpawnAt s"
  have one: "nextMesh (maybeSpawnCoins L nowMs rnd i s) \<noteq> nextMesh s \<longleftrightarrow> ?fire"
    by (simp add: maybeSpawnCoins_nextMesh)
  have idle: "nextMesh (maybeSpawnCoins L nowMs rnd i s) = nextMesh s \<Longrightarrow>
                maybeSpawnCoins L nowMs rnd i s = s"
    using one maybeSpawnCoins_idle [of s rnd nowMs L i] by blast
  have gap: "SPAWN_INTERVAL_MS * 0.7 \<le> nowMs' - nowMs"
    if f1: "nextMesh (maybeSpawnCoins L nowMs rnd i s) \<noteq> nextMesh s"
      and keep: "lastSpawnAt s' = lastSpawnAt (maybeSpawnCoins L nowMs rnd i s)"
      and f2: "nextMesh (maybeSpawnCoins L nowMs' rnd' i' s') \<noteq> nextMesh s'"
  proof -
    from f1 have "lastSpawnAt (maybeSpawnCoins L nowMs rnd i s) = nowMs"
      by (simp add: maybeSpawnCoins_nextMesh maybeSpawnCoins_lastSpawnAt split: if_splits)
    with keep have l: "lastSpawnAt s' = nowMs" by simp
    from f2 have "SPAWN_INTERVAL_MS * (0.7 + rnd' * 0.8) \<le> nowMs' - lastSpawnAt s'"
      by (simp add: maybeSpawnCoins_nextMesh split: if_splits)
    moreover have "SPAWN_INTERVAL_MS * 0.7 \<le> SPAWN_INTERVAL_MS * (0.7 + rnd' * 0.8)"
      using assms by (simp add: SPAWN_INTERVAL_MS_def)
    ultimately show ?thesis using l by simp
  qed
  have other: "e \<noteq> SessionStart \<and> (\<forall>j. e \<noteq> XRFrame j) \<longrightarrow>
                 lastSpawnAt (handle L e s) = lastSpawnAt s"
    using lastSpawnAt_other_handlers [of e L s] by blast
  show ?thesis
    using one idle gap other lastSpawnAt_frame [of L f s]
    by (simp add: maybeSpawnCoins_lastSpawnAt)
qed

theorem spawn_timing_witness:
  "nextMesh (maybeSpawnCoins three_plain 2000 0 (draws 2000) placed_state)
     \<noteq> nextMesh placed_state \<and>
   lastSpawnAt one_coin
     = lastSpawnAt (maybeSpawnCoins three_plain 2000 0 (draws 2000) placed_state) \<and>
   nextMesh (maybeSpawnCoins three_plain 4000 0 (draws 4000) one_coin)
     \<noteq> nextMesh one_coin \<and>
   SPAWN_INTERVAL_MS * 0.7 \<le> 4000 - 2000 \<and>
   maybeSpawnCoins three_plain 2500 0 (draws 2500) one_coin = one_coin"
proof -
  have z: "(0::real) \<le> 0" by simp
  have p: "nextMesh placed_state = 0"
    by (simp add: placed_state_def onPointerDown_def start_state_def Let_def)
  have a: "nextMesh (maybeSpawnCoins three_plain 2000 0 (draws 2000) placed_state)
             \<noteq> nextMesh placed_state"
    using one_coin_fields p by (simp add: one_coin_def)
  have b: "lastSpawnAt one_coin
             = lastSpawnAt (maybeSpawnCoins three_plain 2000 0 (draws 2000) placed_state)"
    by (simp add: one_coin_def)
  have c: "nextMesh (maybeSpawnCoins three_plain 4000 0 (draws 4000) one_coin)
             \<noteq> nextMesh one_coin"
    using one_coin_fields two_coins_fields by (simp add: two_coins_def)
  have d: "nextMesh (maybeSpawnCoins three_plain 2500 0 (draws 2500) one_coin)
             = nextMesh one_coin"
    using one_coin_fields by (simp add: maybeSpawnCoins_nextMesh SPAWN_INTERVAL_MS_def)
  show ?thesis
    using a b c d
      spawn_timing [OF z, where L = three_plain and nowMs = 2000 and rnd = 0
        and i = "draws 2000" and s = placed_state and s' = one_coin and nowMs' = 4000
        and i' = "draws 4000"]
      spawn_timing [OF z, where L = three_plain and nowMs = 2500 and rnd = 0
        and i = "draws 2500" and s = one_coin]
    by simp
qed

section \<open>Proximity collection\<close>

lemma near_self: "near s (position (meshes s c)) c"
  by (simp add: near_def distanceTo_def COLLECT_RADIUS_def)

lemma collect_effect_score: "score (collect_effect L c k s) = score s"
  by (simp add: collect_effect_def Let_def tween_frame)

lemma collect_effect_coins: "coins (collect_effect L c k s) = removeAll c (coins s)"
  by (simp add: collect_effect_def Let_def tween_coins)

lemma collect_effect_transparent:
  "transparent (materials (collect_effect L c k s) (material (meshes s c)))"
  by (simp add: collect_effect_def Let_def tween_def)

lemma one_coin_near: "near one_coin (Vec3 0.6 0.82 (- 1.5)) 0"
  using near_self [of one_coin 0] one_coin_fields by simp

section \<open>Collection on a proximity tick (C2)\<close>

text \<open>
  C2, as stated, fails in its ordering: \<open>collect\<close> calls \<open>tween()\<close> before it
  increments the score. In the run below the first call of the tween has made the
  shared material transparent and has queued the next animation frame, and the score
  is still the old one.
\<close>

theorem score_before_effect_counterexample:
  "near one_coin (Vec3 0.6 0.82 (- 1.5)) 0 \<and>
   \<not> transparent (materials one_coin (material (meshes one_coin 0))) \<and>
   transparent (materials (collect_effect three_plain 0 (5000, 5000) one_coin)
                  (material (meshes one_coin 0))) \<and>
   tweens (collect_effect three_plain 0 (5000, 5000) one_coin) \<noteq> [] \<and>
   score (collect_effect three_plain 0 (5000, 5000) one_coin) \<noteq> score one_coin + 1"
  using one_coin_near one_coin_fields
  by (simp add: collect_effect_score collect_effect_transparent)
    (simp add: collect_effect_def tween_def Let_def)

text \<open>
  C2, amended. On a proximity tick over a duplicate-free pool, exactly the coins at
  distance less than \<open>COLLECT_RADIUS\<close> = 0.5 from the head leave the pool, in that
  tick, and the score grows by their number, 1 for each. For a coin in the pool,
  \<open>collect\<close> increments the score by exactly 1 in the same synchronous call, after
  the first call of its tween (which has already run when the score is still the old
  one) and before any later animation frame; no call of the tween changes the score.
\<close>

theorem proximity_collect_exact:
  assumes "distinct (coins s)"
  shows "coins (checkProximityCollect L h ck s) = filter (\<lambda>c. \<not> near s h c) (coins s) \<and>
         score (checkProximityCollect L h ck s)
           = score s + length (filter (near s h) (coins s)) \<and>
         (c \<in> set (coins s) \<longrightarrow>
            collect L c k s = updateHUD ((collect_effect L c k s)\<lparr>score := score s + 1\<rparr>) \<and>
            score (collect_effect L c k s) = score s \<and>
            c \<notin> set (coins (collect_effect L c k s)) \<and>
            transparent (materials (collect_effect L c k s) (material (meshes s c))) \<and>
            score (collect L c k s) = score s + 1 \<and>
            hud_score (collect L c k s) = score s + 1) \<and>
         score (tween L e t s) = score s"
proof -
  have "score (checkProximityCollect L h ck s)
           = score s + length (filter (near s h) (coins s))"
    using assms by (simp add: checkProximityCollect_def Let_def fold_collect_score)
  then show ?thesis
    by (simp add: checkProximityCollect_coins collect_def Let_def collect_effect_score
        collect_effect_coins collect_effect_transparent tween_frame updateHUD_def)
qed

theorem proximity_collect_exact_witness:
  "distinct (coins one_coin) \<and> near one_coin (Vec3 0.6 0.82 (- 1.5)) 0 \<and>
   coins (checkProximityCollect three_plain (Vec3 0.6 0.82 (- 1.5)) (\<lambda>c. (5000, 5000)) one_coin) = [] \<and>
   score (checkProximityCollect three_plain (Vec3 0.6 0.82 (- 1.5)) (\<lambda>c. (5000, 5000)) one_coin) = 1 \<and>
   score (collect three_plain 0 (5000, 5000) one_coin) = 1"
proof -
  have d: "distinct (coins one_coin)" by (simp add: one_coin_fields)
  show ?thesis
    using d one_coin_near one_coin_fields
      proximity_collect_exact [OF d, of three_plain "Vec3 0.6 0.82 (- 1.5)" "\<lambda>c. (5000, 5000)" 0
        "(5000, 5000)"]
    by (simp add: updateHUD_def)
qed

section \<open>The collection effect writes the shared material (C3)\<close>

text \<open>
  C3. Every coin is built with the one material of \<open>getSharedCoinMat\<close>, and the
  tween of a collected coin writes \<open>obj.material\<close>. In the run below, collecting
  coin 0 leaves coin 1 in the pool with its material's opacity dropped from 1 to 1/2
  and its material turned transparent: the effect is not confined to the collected
  coin.
\<close>

theorem collect_effect_not_isolated:
  "coins after_collect = [1] \<and>
   material (meshes after_collect 1) = material (meshes two_coins 0) \<and>
   opacity (materials two_coins (material (meshes two_coins 1))) = 1 \<and>
   \<not> transparent (materials two_coins (material (meshes two_coins 1))) \<and>
   opacity (materials after_collect (material (meshes after_collect 1))) = 1 / 2 \<and>
   transparent (materials after_collect (material (meshes after_collect 1)))"
  using collect_opacity [of 0 two_coins three_plain "(5000, 5090)"] two_coins_fields
  by (simp add: after_collect_def collect_coins collect_material_ref)

end
